theory Spec2Isabelle
  imports Main "HOL-Library.Word"
begin

section \<open>Data model\<close>

text \<open>
  Go's fixed-width integers are words: \<open>uint32\<close> and \<open>int32\<close> are both \<open>32 word\<close>
  (the conversion \<open>uint32(x)\<close> of an \<open>int32\<close> keeps the bits), \<open>int64\<close> is \<open>64 word\<close>.
  The order \<open><\<close> on words is the unsigned one; a comparison of two \<open>int32\<close> values is
  written with \<open>sint\<close>. The conversion \<open>uint32(x)\<close> of an \<open>int64\<close> is \<open>ucast\<close>, which
  keeps the low 32 bits.
\<close>

type_synonym uint32 = "32 word"
type_synonym int32 = "32 word"
type_synonym int64 = "64 word"
type_synonym bytes = "8 word list"

text \<open>
  Modelled from the spec: \<open>schedulerobjects.JobSchedulingInfo\<close> is a protobuf message whose
  declaration is not at hand. The reconciler reads only \<open>Version\<close>; the other fields are those
  the test file sets and the cycle of the specification refers to (at-most-once, the queue TTL,
  the fail-fast marker, the node anti-affinities).
\<close>

record JobSchedulingInfo =
  Version :: uint32
  AtMostOnce :: bool
  QueueTtlSeconds :: int
  FailFast :: bool
  NodeAntiAffinities :: "string list"

text \<open>
  Modelled from the spec: the snapshot types \<open>jobdb.JobRun\<close> and \<open>jobdb.Job\<close> and their
  \<open>With...\<close> methods live in files of package \<open>jobdb\<close> that are not at hand; the fields
  are the arguments of \<open>CreateRun\<close> and \<open>NewJob\<close> as the reconciler passes them, and a job
  holds the ordered list of its runs (section 3 of the specification). A job has a requested
  priority, which the reconciler writes, and a priority, which the tests of the cycle read.
\<close>

record JobRun =
  run_id :: string
  run_jobId :: string
  run_created :: int64
  run_executor :: string
  run_nodeId :: string
  run_nodeName :: string
  run_scheduledAtPriority :: "int32 option"
  run_running :: bool
  run_succeeded :: bool
  run_failed :: bool
  run_cancelled :: bool
  run_returned :: bool
  run_runAttempted :: bool

record Job =
  job_id :: string
  job_jobset :: string
  job_queue :: string
  job_requestedPriority :: uint32
  job_priority :: uint32
  job_schedulingInfo :: JobSchedulingInfo
  job_queued :: bool
  job_queuedVersion :: int32
  job_cancelRequested :: bool
  job_cancelByJobsetRequested :: bool
  job_cancelled :: bool
  job_succeeded :: bool
  job_failed :: bool
  job_created :: int64
  job_runs :: "JobRun list"

text \<open>
  Modelled from the spec: the row types \<open>database.Job\<close> and \<open>database.Run\<close> of the
  repository delta feed are declared in a file that is not at hand. The columns are those the
  reconciler and the tests read, under the names they have there. \<open>PendingTimestamp\<close> and
  \<open>ScheduledAtPriority\<close> are pointers, so options.
\<close>

record dbJob =
  dbJob_JobID :: string
  dbJob_JobSet :: string
  dbJob_Queue :: string
  dbJob_Submitted :: int64
  dbJob_Priority :: int64
  dbJob_Queued :: bool
  dbJob_QueuedVersion :: int32
  dbJob_CancelRequested :: bool
  dbJob_CancelByJobsetRequested :: bool
  dbJob_Cancelled :: bool
  dbJob_Succeeded :: bool
  dbJob_Failed :: bool
  dbJob_SchedulingInfo :: bytes
  dbJob_SchedulingInfoVersion :: int32
  dbJob_Serial :: int64

record dbRun =
  dbRun_RunID :: string
  dbRun_JobID :: string
  dbRun_Created :: int64
  dbRun_Executor :: string
  dbRun_Node :: string
  dbRun_ScheduledAtPriority :: "int32 option"
  dbRun_Running :: bool
  dbRun_Succeeded :: bool
  dbRun_Failed :: bool
  dbRun_Cancelled :: bool
  dbRun_Returned :: bool
  dbRun_RunAttempted :: bool
  dbRun_PendingTimestamp :: "int64 option"
  dbRun_Serial :: int64

text \<open>Errors are values. \<open>UnmarshalError\<close> carries the id of the job whose row failed to decode.\<close>

datatype error =
    UnmarshalError string
  | FetchError
  | ScheduleError
  | PublishError
  | LeaderLost

text \<open>\<open>JobStateTransitions\<close> and \<open>RunStateTransitions\<close>, field for field.\<close>

record JobStateTransitions =
  jst_Job :: "Job option"
  jst_Queued :: bool
  jst_Scheduled :: bool
  jst_Pending :: bool
  jst_Running :: bool
  jst_Cancelled :: bool
  jst_Preempted :: bool
  jst_Failed :: bool
  jst_Succeeded :: bool

record RunStateTransitions =
  rst_JobRun :: "JobRun option"
  rst_Scheduled :: bool
  rst_Returned :: bool
  rst_Pending :: bool
  rst_Running :: bool
  rst_Cancelled :: bool
  rst_Preempted :: bool
  rst_Failed :: bool
  rst_Succeeded :: bool

text \<open>The zero values of the two structs: what a named result holds before it is assigned.\<close>

definition jst_zero :: JobStateTransitions where
  "jst_zero = \<lparr>jst_Job = None, jst_Queued = False, jst_Scheduled = False, jst_Pending = False,
     jst_Running = False, jst_Cancelled = False, jst_Preempted = False, jst_Failed = False,
     jst_Succeeded = False\<rparr>"

definition rst_zero :: RunStateTransitions where
  "rst_zero = \<lparr>rst_JobRun = None, rst_Scheduled = False, rst_Returned = False,
     rst_Pending = False, rst_Running = False, rst_Cancelled = False, rst_Preempted = False,
     rst_Failed = False, rst_Succeeded = False\<rparr>"

section \<open>The jobDb operations the reconciler calls\<close>

text \<open>
  Modelled from the spec: \<open>NewJob\<close>, \<open>CreateRun\<close>, \<open>RunById\<close> and \<open>WithUpdatedRun\<close> are
  methods of package \<open>jobdb\<close> whose bodies are not at hand. \<open>NewJob\<close> takes exactly the
  eleven arguments of the call in \<open>schedulerJobFromDatabaseJob\<close>: it has no parameter for
  \<open>succeeded\<close> or \<open>failed\<close>, which start false, its priority is the requested one, and a
  new job has no runs. \<open>RunById\<close> looks a
  run up by id; \<open>WithUpdatedRun\<close> upserts a run (replaces the run with the same id, or appends).
  Every other \<open>With...\<close> method derives a snapshot with one field changed, which is a record update.
\<close>

definition NewJob ::
  "string \<Rightarrow> string \<Rightarrow> string \<Rightarrow> uint32 \<Rightarrow> JobSchedulingInfo \<Rightarrow> bool \<Rightarrow> int32 \<Rightarrow> bool \<Rightarrow> bool
     \<Rightarrow> bool \<Rightarrow> int64 \<Rightarrow> Job" where
  "NewJob jobId jobset queue priority schedulingInfo queued queuedVersion cancelRequested
      cancelByJobsetRequested cancelled created =
    \<lparr>job_id = jobId, job_jobset = jobset, job_queue = queue, job_requestedPriority = priority,
     job_priority = priority, job_schedulingInfo = schedulingInfo, job_queued = queued, job_queuedVersion = queuedVersion,
     job_cancelRequested = cancelRequested,
     job_cancelByJobsetRequested = cancelByJobsetRequested, job_cancelled = cancelled,
     job_succeeded = False, job_failed = False, job_created = created, job_runs = []\<rparr>"

definition CreateRun ::
  "string \<Rightarrow> string \<Rightarrow> int64 \<Rightarrow> string \<Rightarrow> string \<Rightarrow> string \<Rightarrow> int32 option \<Rightarrow> bool \<Rightarrow> bool
     \<Rightarrow> bool \<Rightarrow> bool \<Rightarrow> bool \<Rightarrow> bool \<Rightarrow> JobRun" where
  "CreateRun runId jobId created executor nodeId nodeName scheduledAtPriority running succeeded
      failed cancelled returned runAttempted =
    \<lparr>run_id = runId, run_jobId = jobId, run_created = created, run_executor = executor,
     run_nodeId = nodeId, run_nodeName = nodeName, run_scheduledAtPriority = scheduledAtPriority,
     run_running = running, run_succeeded = succeeded, run_failed = failed,
     run_cancelled = cancelled, run_returned = returned, run_runAttempted = runAttempted\<rparr>"

definition RunById :: "Job \<Rightarrow> string \<Rightarrow> JobRun option" where
  "RunById job rid = find (\<lambda>r. run_id r = rid) (job_runs job)"

fun upsert_run :: "JobRun \<Rightarrow> JobRun list \<Rightarrow> JobRun list" where
  "upsert_run run [] = [run]"
| "upsert_run run (r # rs) = (if run_id r = run_id run then run # rs else r # upsert_run run rs)"

definition WithUpdatedRun :: "Job \<Rightarrow> JobRun \<Rightarrow> Job" where
  "WithUpdatedRun job run = job\<lparr>job_runs := upsert_run run (job_runs job)\<rparr>"

text \<open>
  Modelled from the spec: \<open>api.NodeIdFromExecutorAndNodeName\<close> is not at hand. The node id is
  the executor id concatenated with the node name (section 3); the test of the synchronisation
  expects \<open>test-executor-test-node\<close> for executor \<open>test-executor\<close> and node \<open>test-node\<close>.
\<close>

definition NodeIdFromExecutorAndNodeName :: "string \<Rightarrow> string \<Rightarrow> string" where
  "NodeIdFromExecutorAndNodeName executor nodeName = executor @ ''-'' @ nodeName"

section \<open>The reconciler\<close>

text \<open>\<open>applyRunStateTransitions\<close>: the run's transitions are OR-ed into the job's.\<close>

definition applyRunStateTransitions ::
  "JobStateTransitions \<Rightarrow> RunStateTransitions \<Rightarrow> JobStateTransitions" where
  "applyRunStateTransitions jst rst =
     jst\<lparr>jst_Queued := jst_Queued jst \<or> rst_Returned rst,
         jst_Scheduled := jst_Scheduled jst \<or> rst_Scheduled rst,
         jst_Pending := jst_Pending jst \<or> rst_Pending rst,
         jst_Running := jst_Running jst \<or> rst_Running rst,
         jst_Cancelled := jst_Cancelled jst \<or> rst_Cancelled rst,
         jst_Preempted := jst_Preempted jst \<or> rst_Preempted rst,
         jst_Failed := jst_Failed jst \<or> rst_Failed rst,
         jst_Succeeded := jst_Succeeded jst \<or> rst_Succeeded rst\<rparr>"

text \<open>\<open>schedulerRunFromDatabaseRun\<close>: the six flags are taken from the row as they are.\<close>

definition schedulerRunFromDatabaseRun :: "dbRun \<Rightarrow> JobRun" where
  "schedulerRunFromDatabaseRun dbRun =
     CreateRun (dbRun_RunID dbRun) (dbRun_JobID dbRun) (dbRun_Created dbRun)
       (dbRun_Executor dbRun)
       (NodeIdFromExecutorAndNodeName (dbRun_Executor dbRun) (dbRun_Node dbRun))
       (dbRun_Node dbRun) (dbRun_ScheduledAtPriority dbRun) (dbRun_Running dbRun)
       (dbRun_Succeeded dbRun) (dbRun_Failed dbRun) (dbRun_Cancelled dbRun)
       (dbRun_Returned dbRun) (dbRun_RunAttempted dbRun)"

text \<open>
  \<open>schedulerJobFromDatabaseJob\<close>. \<open>proto.Unmarshal\<close> belongs to a library, so the decoder is
  the parameter \<open>unm\<close>: \<open>None\<close> is a decoding error.
\<close>

definition schedulerJobFromDatabaseJob ::
  "(bytes \<Rightarrow> JobSchedulingInfo option) \<Rightarrow> dbJob \<Rightarrow> error + Job" where
  "schedulerJobFromDatabaseJob unm dbJob =
     (case unm (dbJob_SchedulingInfo dbJob) of
        None \<Rightarrow> Inl (UnmarshalError (dbJob_JobID dbJob))
      | Some schedulingInfo \<Rightarrow>
          Inr (NewJob (dbJob_JobID dbJob) (dbJob_JobSet dbJob) (dbJob_Queue dbJob)
                 (ucast (dbJob_Priority dbJob)) schedulingInfo (dbJob_Queued dbJob)
                 (dbJob_QueuedVersion dbJob) (dbJob_CancelRequested dbJob)
                 (dbJob_CancelByJobsetRequested dbJob) (dbJob_Cancelled dbJob)
                 (dbJob_Submitted dbJob)))"

text \<open>
  \<open>reconcileRunDifferences\<close>. The deferred assignment \<open>rst.JobRun = jobRun\<close> runs on every
  return, so each branch ends by storing the current run. The conditionals of the last branch
  run one after the other, each on the run and the transitions the one before left.
\<close>

definition reconcileRunFlags :: "JobRun \<Rightarrow> dbRun \<Rightarrow> JobRun \<times> RunStateTransitions" where
  "reconcileRunFlags jobRun jobRepoRun =
     (let rst = rst_zero;
          (jobRun, rst) =
             (if dbRun_Running jobRepoRun \<and> \<not> run_running jobRun
              then (jobRun\<lparr>run_running := True\<rparr>, rst\<lparr>rst_Running := True\<rparr>)
              else (jobRun, rst));
          (jobRun, rst) =
             (if dbRun_Succeeded jobRepoRun \<and> \<not> run_succeeded jobRun
              then (jobRun\<lparr>run_succeeded := True\<rparr>, rst\<lparr>rst_Succeeded := True\<rparr>)
              else (jobRun, rst));
          (jobRun, rst) =
             (if dbRun_Failed jobRepoRun \<and> \<not> run_failed jobRun
              then (jobRun\<lparr>run_failed := True\<rparr>, rst\<lparr>rst_Failed := True\<rparr>)
              else (jobRun, rst));
          (jobRun, rst) =
             (if dbRun_Cancelled jobRepoRun \<and> \<not> run_cancelled jobRun
              then (jobRun\<lparr>run_cancelled := True\<rparr>, rst\<lparr>rst_Cancelled := True\<rparr>)
              else (jobRun, rst));
          (jobRun, rst) =
             (if dbRun_Returned jobRepoRun \<and> \<not> run_returned jobRun
              then (jobRun\<lparr>run_returned := True\<rparr>, rst\<lparr>rst_Returned := True\<rparr>)
              else (jobRun, rst));
          jobRun =
             (if dbRun_RunAttempted jobRepoRun \<and> \<not> run_runAttempted jobRun
              then jobRun\<lparr>run_runAttempted := True\<rparr>
              else jobRun)
      in (jobRun, rst))"

fun reconcileRunDifferences :: "JobRun option \<Rightarrow> dbRun option \<Rightarrow> RunStateTransitions" where
  "reconcileRunDifferences None None = rst_zero"
| "reconcileRunDifferences None (Some jobRepoRun) =
     rst_zero\<lparr>rst_JobRun := Some (schedulerRunFromDatabaseRun jobRepoRun),
              rst_Returned := dbRun_Returned jobRepoRun,
              rst_Pending := (dbRun_PendingTimestamp jobRepoRun \<noteq> None),
              rst_Running := dbRun_Running jobRepoRun,
              rst_Cancelled := dbRun_Cancelled jobRepoRun,
              rst_Failed := dbRun_Failed jobRepoRun,
              rst_Succeeded := dbRun_Succeeded jobRepoRun\<rparr>"
| "reconcileRunDifferences (Some jobRun) None = rst_zero\<lparr>rst_JobRun := Some jobRun\<rparr>"
| "reconcileRunDifferences (Some jobRun) (Some jobRepoRun) =
     (case reconcileRunFlags jobRun jobRepoRun of
        (jobRun', rst) \<Rightarrow> rst\<lparr>rst_JobRun := Some jobRun'\<rparr>)"

text \<open>
  The loop at the end of \<open>reconcileJobDifferences\<close>. The slice holds pointers to copies of
  rows, none of them nil, so \<open>rst.JobRun\<close> is never nil there; the \<open>None\<close> branch below is not
  reached.
\<close>

fun reconcileRuns ::
  "Job \<Rightarrow> JobStateTransitions \<Rightarrow> dbRun list \<Rightarrow> Job \<times> JobStateTransitions" where
  "reconcileRuns job jst [] = (job, jst)"
| "reconcileRuns job jst (jobRepoRun # rest) =
     (let rst = reconcileRunDifferences (RunById job (dbRun_RunID jobRepoRun)) (Some jobRepoRun);
          jst' = applyRunStateTransitions jst rst;
          job' = (case rst_JobRun rst of None \<Rightarrow> job | Some run \<Rightarrow> WithUpdatedRun job run)
      in reconcileRuns job' jst' rest)"

text \<open>
  The field-by-field part of \<open>reconcileJobDifferences\<close> when both the snapshot and the row
  exist, up to the scheduling info: the five flags, then the priority.
\<close>

definition reconcileJobFlags :: "Job \<Rightarrow> dbJob \<Rightarrow> Job" where
  "reconcileJobFlags job jobRepoJob =
     (let job = (if dbJob_CancelRequested jobRepoJob \<and> \<not> job_cancelRequested job
                 then job\<lparr>job_cancelRequested := True\<rparr> else job);
          job = (if dbJob_CancelByJobsetRequested jobRepoJob \<and> \<not> job_cancelByJobsetRequested job
                 then job\<lparr>job_cancelByJobsetRequested := True\<rparr> else job);
          job = (if dbJob_Cancelled jobRepoJob \<and> \<not> job_cancelled job
                 then job\<lparr>job_cancelled := True\<rparr> else job);
          job = (if dbJob_Succeeded jobRepoJob \<and> \<not> job_succeeded job
                 then job\<lparr>job_succeeded := True\<rparr> else job);
          job = (if dbJob_Failed jobRepoJob \<and> \<not> job_failed job
                 then job\<lparr>job_failed := True\<rparr> else job);
          job = (if ucast (dbJob_Priority jobRepoJob) \<noteq> job_requestedPriority job
                 then job\<lparr>job_requestedPriority := ucast (dbJob_Priority jobRepoJob)\<rparr>
                 else job)
      in job)"

definition reconcileQueued :: "Job \<Rightarrow> dbJob \<Rightarrow> Job" where
  "reconcileQueued job jobRepoJob =
     (if sint (job_queuedVersion job) < sint (dbJob_QueuedVersion jobRepoJob)
      then job\<lparr>job_queuedVersion := dbJob_QueuedVersion jobRepoJob,
               job_queued := dbJob_Queued jobRepoJob\<rparr>
      else job)"

text \<open>
  \<open>reconcileJobDifferences\<close> has the named results \<open>(jst, err)\<close> and the deferred assignment
  \<open>jst.Job = job\<close>, so it returns both, and \<open>jst.Job\<close> is the job as it stands at the return:
  on a decoding error in the fourth case that is the job with flags and priority already
  reconciled. \<open>uint32(jobRepoJob.SchedulingInfoVersion) > job.JobSchedulingInfo().Version\<close> is
  an unsigned comparison.
\<close>

fun reconcileJobDifferences ::
  "(bytes \<Rightarrow> JobSchedulingInfo option) \<Rightarrow> Job option \<Rightarrow> dbJob option \<Rightarrow> dbRun list
     \<Rightarrow> JobStateTransitions \<times> error option" where
  "reconcileJobDifferences unm None None jobRepoRuns = (jst_zero, None)"
| "reconcileJobDifferences unm None (Some jobRepoJob) jobRepoRuns =
     (case schedulerJobFromDatabaseJob unm jobRepoJob of
        Inl err \<Rightarrow> (jst_zero, Some err)
      | Inr job \<Rightarrow>
          (case reconcileRuns job (jst_zero\<lparr>jst_Queued := True\<rparr>) jobRepoRuns of
             (job', jst) \<Rightarrow> (jst\<lparr>jst_Job := Some job'\<rparr>, None)))"
| "reconcileJobDifferences unm (Some job) None jobRepoRuns =
     (case reconcileRuns job jst_zero jobRepoRuns of
        (job', jst) \<Rightarrow> (jst\<lparr>jst_Job := Some job'\<rparr>, None))"
| "reconcileJobDifferences unm (Some job) (Some jobRepoJob) jobRepoRuns =
     (let job = reconcileJobFlags job jobRepoJob in
      if Version (job_schedulingInfo job) < dbJob_SchedulingInfoVersion jobRepoJob
      then (case unm (dbJob_SchedulingInfo jobRepoJob) of
              None \<Rightarrow> (jst_zero\<lparr>jst_Job := Some job\<rparr>,
                       Some (UnmarshalError (dbJob_JobID jobRepoJob)))
            | Some schedulingInfo \<Rightarrow>
                (case reconcileRuns
                        (reconcileQueued (job\<lparr>job_schedulingInfo := schedulingInfo\<rparr>) jobRepoJob)
                        jst_zero jobRepoRuns of
                   (job', jst) \<Rightarrow> (jst\<lparr>jst_Job := Some job'\<rparr>, None)))
      else (case reconcileRuns (reconcileQueued job jobRepoJob) jst_zero jobRepoRuns of
              (job', jst) \<Rightarrow> (jst\<lparr>jst_Job := Some job'\<rparr>, None)))"

text \<open>
  \<open>ReconcileDifferences\<close>. \<open>jobRepoJobsById\<close> is the Go map from job id to a pointer to the
  row: every job id of a run row is mapped to nil first, then every job row overwrites the entry
  of its id (a later row of the same id wins). A key of the Go map is \<open>Some\<close> here, and the nil
  pointer is the inner \<open>None\<close>. \<open>jobRepoRunsById\<close> groups the run rows by job id, in their order.
\<close>

definition jobRepoJobsById :: "dbJob list \<Rightarrow> dbRun list \<Rightarrow> string \<Rightarrow> dbJob option option" where
  "jobRepoJobsById jobRepoJobs jobRepoRuns =
     fold (\<lambda>jobRepoJob m. m(dbJob_JobID jobRepoJob \<mapsto> Some jobRepoJob)) jobRepoJobs
       (fold (\<lambda>jobRepoRun m. m(dbRun_JobID jobRepoRun \<mapsto> None)) jobRepoRuns Map.empty)"

definition jobRepoRunsById :: "dbRun list \<Rightarrow> string \<Rightarrow> dbRun list" where
  "jobRepoRunsById jobRepoRuns jobId = filter (\<lambda>jobRepoRun. dbRun_JobID jobRepoRun = jobId) jobRepoRuns"

text \<open>
  Modelled from the spec: the jobDb and its transactions are not at hand. A transaction is the
  list of the job snapshots it holds, and \<open>GetById\<close> finds the snapshot of an id.
\<close>

type_synonym Txn = "Job list"

definition GetById :: "Txn \<Rightarrow> string \<Rightarrow> Job option" where
  "GetById txn jobId = find (\<lambda>job. job_id job = jobId) txn"


fun reconcileEach ::
  "(bytes \<Rightarrow> JobSchedulingInfo option) \<Rightarrow> Txn \<Rightarrow> (string \<Rightarrow> dbJob option option)
     \<Rightarrow> (string \<Rightarrow> dbRun list) \<Rightarrow> string list \<Rightarrow> JobStateTransitions list
     \<Rightarrow> error + JobStateTransitions list" where
  "reconcileEach unm txn byId runsById [] jsts = Inr jsts"
| "reconcileEach unm txn byId runsById (jobId # rest) jsts =
     (case byId jobId of
        None \<Rightarrow> reconcileEach unm txn byId runsById rest jsts
      | Some jobRepoJob \<Rightarrow>
          (case reconcileJobDifferences unm (GetById txn jobId) jobRepoJob (runsById jobId) of
             (jst, Some err) \<Rightarrow> Inl err
           | (jst, None) \<Rightarrow> reconcileEach unm txn byId runsById rest (jsts @ [jst])))"

definition ReconcileDifferences ::
  "string list \<Rightarrow> (bytes \<Rightarrow> JobSchedulingInfo option) \<Rightarrow> Txn \<Rightarrow> dbJob list \<Rightarrow> dbRun list
     \<Rightarrow> error + JobStateTransitions list" where
  "ReconcileDifferences jobIds unm txn jobRepoJobs jobRepoRuns =
     reconcileEach unm txn (jobRepoJobsById jobRepoJobs jobRepoRuns)
       (jobRepoRunsById jobRepoRuns) jobIds []"

section \<open>Writing the reconciled snapshots\<close>

text \<open>
  Modelled from the spec: \<open>Upsert\<close> and the deletion of jobs are methods of the jobDb
  transaction, not at hand. Section 4.A: an upsert replaces the snapshot of the same id or adds
  the job, and rejects a snapshot that clears a terminal flag set before or lowers the
  queued-version; a rejected upsert is not applied and the transaction stays usable.
  Terminal is any of succeeded, failed, cancelled (section 3).
\<close>

definition InTerminalState :: "Job \<Rightarrow> bool" where
  "InTerminalState job \<longleftrightarrow> job_succeeded job \<or> job_failed job \<or> job_cancelled job"

definition regresses :: "Job \<Rightarrow> Job \<Rightarrow> bool" where
  "regresses old new \<longleftrightarrow>
     (job_succeeded old \<and> \<not> job_succeeded new) \<or> (job_failed old \<and> \<not> job_failed new) \<or>
     (job_cancelled old \<and> \<not> job_cancelled new) \<or>
     sint (job_queuedVersion new) < sint (job_queuedVersion old)"

fun upsert_job :: "Job \<Rightarrow> Txn \<Rightarrow> Txn" where
  "upsert_job job [] = [job]"
| "upsert_job job (j # js) =
     (if job_id j = job_id job then (if regresses j job then j # js else job # js)
      else j # upsert_job job js)"

definition Upsert :: "Txn \<Rightarrow> Job list \<Rightarrow> Txn" where
  "Upsert txn jobs = fold upsert_job jobs txn"

definition BatchDelete :: "Txn \<Rightarrow> string list \<Rightarrow> Txn" where
  "BatchDelete txn jobIds = filter (\<lambda>job. job_id job \<notin> set jobIds) txn"

text \<open>
  Modelled from the spec: the caller of \<open>ReconcileDifferences\<close> (the state synchronisation of
  the scheduler) is not at hand; its test is. Section 4.B, step 4: the resulting snapshot of
  every transition record is written with an upsert; a record without a job (neither a
  snapshot nor a row) writes nothing. The test of the synchronisation adds that a job the
  reconciliation leaves in a terminal state is not kept: after the case \<open>job succeeded\<close> the
  jobDb holds no job. A reconciliation that returns an error writes nothing.
\<close>

definition jobsOf :: "JobStateTransitions list \<Rightarrow> Job list" where
  "jobsOf jsts = concat (map (\<lambda>jst. case jst_Job jst of None \<Rightarrow> [] | Some job \<Rightarrow> [job]) jsts)"

definition writeJobs :: "Txn \<Rightarrow> Job list \<Rightarrow> Txn" where
  "writeJobs txn jobs =
     BatchDelete (Upsert txn (filter (\<lambda>job. \<not> InTerminalState job) jobs))
       (map job_id (filter InTerminalState jobs))"

definition applyDeltas ::
  "string list \<Rightarrow> (bytes \<Rightarrow> JobSchedulingInfo option) \<Rightarrow> Txn \<Rightarrow> dbJob list \<Rightarrow> dbRun list
     \<Rightarrow> error + Txn" where
  "applyDeltas jobIds unm txn jobRepoJobs jobRepoRuns =
     (case ReconcileDifferences jobIds unm txn jobRepoJobs jobRepoRuns of
        Inl err \<Rightarrow> Inl err
      | Inr jsts \<Rightarrow> Inr (writeJobs txn (jobsOf jsts)))"

section \<open>The scheduling cycle\<close>

text \<open>
  Modelled from the spec: the cycle driver (the scheduler's \<open>cycle\<close>, its state
  synchronisation and its event generation) is not at hand; its tests are. The definitions of
  this section follow section 4.C of the specification step by step, and the table of the test
  of the cycle where the specification is silent or leaves a choice open. What lies outside
  the cycle is an input of it: the leader token and its validity, the rows the repository
  returns, the clock, the heartbeats, the submit checker, the scheduling algorithm and the
  outcome of publishing.
\<close>

datatype event =
    JobRunLeased string string
  | JobErrors string string
  | JobRunErrors string string string
  | JobRunPreempted string string
  | CancelledJob string
  | ReprioritisedJob string
  | JobSucceeded string
  | JobRequeued string
  | CancelJob string

text \<open>
  Modelled from the spec: the state predicates of a job and a run are methods of package
  \<open>jobdb\<close>, not at hand. Leased is neither queued nor terminal (section 3). A run has ended
  once it succeeded, failed, was cancelled or was returned. The latest run is the last of the
  ordered list; the attempt count is the number of attempted runs.
\<close>

definition leased :: "Job \<Rightarrow> bool" where
  "leased job \<longleftrightarrow> \<not> job_queued job \<and> \<not> InTerminalState job"

definition run_ended :: "JobRun \<Rightarrow> bool" where
  "run_ended run \<longleftrightarrow> run_succeeded run \<or> run_failed run \<or> run_cancelled run \<or> run_returned run"

definition LatestRun :: "Job \<Rightarrow> JobRun option" where
  "LatestRun job = (if job_runs job = [] then None else Some (last (job_runs job)))"

definition NumAttempts :: "Job \<Rightarrow> nat" where
  "NumAttempts job = length (filter run_runAttempted (job_runs job))"

text \<open>
  Modelled from the spec: the types of the cycle driver are not at hand. The result of the
  scheduling algorithm holds the jobs to lease (each with the run to attach), the jobs to
  preempt and the jobs found infeasible (section 9). The scheduler holds the jobDb, the two
  serials and its configuration. \<open>CycleInput\<close> is what one cycle receives from outside.
\<close>

record Lease =
  lease_jobId :: string
  lease_runId :: string
  lease_executor :: string
  lease_nodeName :: string
  lease_priority :: int32

record SchedulerResult =
  ScheduledJobs :: "Lease list"
  PreemptedJobs :: "string list"
  FailedJobs :: "string list"

record Scheduler =
  jobDb :: Txn
  jobsSerial :: int64
  runsSerial :: int64
  executorTimeout :: int
  maxAttemptedRuns :: nat

record CycleInput =
  ci_isLeader :: bool
  ci_tokenValidAtPublish :: bool
  ci_fetch :: "int64 \<Rightarrow> int64 \<Rightarrow> error + (dbJob list \<times> dbRun list)"
  ci_unmarshal :: "bytes \<Rightarrow> JobSchedulingInfo option"
  ci_now :: int
  ci_lastUpdateTimes :: "string \<Rightarrow> int option"
  ci_submitCheck :: "Job \<Rightarrow> bool"
  ci_shouldSchedule :: bool
  ci_schedule :: "Txn \<Rightarrow> error + SchedulerResult"
  ci_publishOk :: bool

datatype outcome = NotLeader | Aborted error | Published "event list"

definition published :: "outcome \<Rightarrow> event list" where
  "published out = (case out of Published events \<Rightarrow> events | _ \<Rightarrow> [])"

text \<open>
  Modelled from the spec: steps 2 and 3 of section 4.C. Fetch the deltas since the two serials,
  reconcile, write. The rows are visited in the order of their first mention, runs before jobs.
\<close>

definition syncState :: "CycleInput \<Rightarrow> Scheduler \<Rightarrow> error + (Txn \<times> dbJob list \<times> dbRun list)" where
  "syncState env s =
     (case ci_fetch env (jobsSerial s) (runsSerial s) of
        Inl err \<Rightarrow> Inl err
      | Inr (jobRepoJobs, jobRepoRuns) \<Rightarrow>
          (case applyDeltas (remdups (map dbRun_JobID jobRepoRuns @ map dbJob_JobID jobRepoJobs))
                  (ci_unmarshal env) (jobDb s) jobRepoJobs jobRepoRuns of
             Inl err \<Rightarrow> Inl err
           | Inr txn \<Rightarrow> Inr (txn, jobRepoJobs, jobRepoRuns)))"

text \<open>
  Modelled from the spec: every step of section 4.C that evaluates the jobs looks at each job
  of the transaction, derives a snapshot of it and the events of that job, and adds the events
  to those of the steps before.
\<close>

definition forEachJob ::
  "(Job \<Rightarrow> Job \<times> event list) \<Rightarrow> Txn \<times> event list \<Rightarrow> Txn \<times> event list" where
  "forEachJob f st =
     (map (\<lambda>job. fst (f job)) (fst st), snd st @ concat (map (\<lambda>job. snd (f job)) (fst st)))"

text \<open>
  Modelled from the spec: the events that follow the reconciliation (section 6 names their
  kinds), as the test table shows them, each for a job that is not terminal. A job that is cancel-requested, by itself or by its jobset, is cancelled and
  leaves the queue, with a \<open>CancelledJob\<close> event only (the request was published by whoever
  made it). A job whose requested priority differs from its priority takes the requested one,
  with a \<open>ReprioritisedJob\<close> event. A leased job whose latest run succeeded has succeeded,
  with a \<open>JobSucceeded\<close> event; one whose latest run failed without being returned has failed,
  with a \<open>JobErrors\<close> event.
\<close>

definition cancelIfRequested :: "Job \<Rightarrow> Job \<times> event list" where
  "cancelIfRequested job =
     (if \<not> InTerminalState job \<and> (job_cancelRequested job \<or> job_cancelByJobsetRequested job)
      then (job\<lparr>job_cancelled := True, job_queued := False\<rparr>, [CancelledJob (job_id job)])
      else (job, []))"

definition reprioritise :: "Job \<Rightarrow> Job \<times> event list" where
  "reprioritise job =
     (if \<not> InTerminalState job \<and> job_requestedPriority job \<noteq> job_priority job
      then (job\<lparr>job_priority := job_requestedPriority job\<rparr>, [ReprioritisedJob (job_id job)])
      else (job, []))"

definition finishIfRunEnded :: "Job \<Rightarrow> Job \<times> event list" where
  "finishIfRunEnded job =
     (case LatestRun job of
        None \<Rightarrow> (job, [])
      | Some run \<Rightarrow>
          if leased job \<and> run_succeeded run
          then (job\<lparr>job_succeeded := True\<rparr>, [JobSucceeded (job_id job)])
          else if leased job \<and> run_failed run \<and> \<not> run_returned run
          then (job\<lparr>job_failed := True\<rparr>, [JobErrors (job_id job) ''run-failed''])
          else (job, []))"

text \<open>
  Modelled from the spec: step 4 of section 4.C, executor liveness. A leased job whose latest run has not ended, on an executor whose
  last heartbeat is older than the timeout, fails with reason lease-expired.
\<close>

definition stale :: "CycleInput \<Rightarrow> Scheduler \<Rightarrow> string \<Rightarrow> bool" where
  "stale env s executor =
     (case ci_lastUpdateTimes env executor of
        None \<Rightarrow> False
      | Some t \<Rightarrow> executorTimeout s < ci_now env - t)"

definition expireJob :: "CycleInput \<Rightarrow> Scheduler \<Rightarrow> Job \<Rightarrow> Job \<times> event list" where
  "expireJob env s job =
     (case LatestRun job of
        None \<Rightarrow> (job, [])
      | Some run \<Rightarrow>
          if leased job \<and> \<not> run_ended run \<and> stale env s (run_executor run)
          then (WithUpdatedRun (job\<lparr>job_failed := True\<rparr>) (run\<lparr>run_failed := True\<rparr>),
                [JobRunErrors (job_id job) (run_id run) ''lease-expired'',
                 JobErrors (job_id job) ''lease-expired''])
          else (job, []))"

text \<open>
  Modelled from the spec: step 5 of section 4.C, queue TTL. A queued job whose time since submission exceeds its TTL (a TTL of 0 is no
  TTL) is cancel-requested and cancelled in the same cycle; the test table adds that it leaves
  the queue.
\<close>

definition queueTtlExpired :: "CycleInput \<Rightarrow> Job \<Rightarrow> bool" where
  "queueTtlExpired env job \<longleftrightarrow>
     job_queued job \<and> \<not> InTerminalState job \<and>
     0 < QueueTtlSeconds (job_schedulingInfo job) \<and>
     QueueTtlSeconds (job_schedulingInfo job) < ci_now env - sint (job_created job)"

definition cancelIfExpired :: "CycleInput \<Rightarrow> Job \<Rightarrow> Job \<times> event list" where
  "cancelIfExpired env job =
     (if queueTtlExpired env job
      then (job\<lparr>job_cancelRequested := True, job_cancelled := True, job_queued := False\<rparr>,
            [CancelJob (job_id job), CancelledJob (job_id job)])
      else (job, []))"

text \<open>
  Modelled from the spec: step 6 of section 4.C, lease returned, for a leased job whose latest
  run was returned. An attempted run adds
  a node anti-affinity for its node and bumps the scheduling-info version. The job fails if the
  augmented job does not pass the submit checker, if the attempts have reached the maximum
  (scenario S6 and the test table: the second attempt of two fails the job), or if it is
  fail-fast; otherwise it is queued again with the queued-version bumped. A returned run that
  was not attempted requeues the job as it is (test table).
\<close>

definition withNodeAntiAffinity :: "string \<Rightarrow> JobSchedulingInfo \<Rightarrow> JobSchedulingInfo" where
  "withNodeAntiAffinity node info =
     info\<lparr>NodeAntiAffinities := NodeAntiAffinities info @ [node], Version := Version info + 1\<rparr>"

definition requeueOrFail :: "CycleInput \<Rightarrow> Scheduler \<Rightarrow> Job \<Rightarrow> Job \<times> event list" where
  "requeueOrFail env s job =
     (case LatestRun job of
        None \<Rightarrow> (job, [])
      | Some run \<Rightarrow>
          if leased job \<and> run_returned run
          then (let augmented =
                      (if run_runAttempted run
                       then job\<lparr>job_schedulingInfo :=
                                  withNodeAntiAffinity (run_nodeName run) (job_schedulingInfo job)\<rparr>
                       else job)
                in if run_runAttempted run \<and> \<not> ci_submitCheck env augmented
                   then (job\<lparr>job_failed := True\<rparr>, [JobErrors (job_id job) ''unschedulable''])
                   else if maxAttemptedRuns s \<le> NumAttempts job
                   then (job\<lparr>job_failed := True\<rparr>, [JobErrors (job_id job) ''too-many-attempts''])
                   else if FailFast (job_schedulingInfo job)
                   then (job\<lparr>job_failed := True\<rparr>, [JobErrors (job_id job) ''fail-fast''])
                   else (augmented\<lparr>job_queued := True,
                                    job_queuedVersion := job_queuedVersion augmented + 1\<rparr>,
                         [JobRequeued (job_id job)]))
          else (job, []))"

text \<open>
  Modelled from the spec: the evaluation of the jobs, on the transaction the synchronisation
  left: the events that follow the reconciliation, then steps 4, 5 and 6 of section 4.C.
\<close>

definition evaluateJobs :: "CycleInput \<Rightarrow> Scheduler \<Rightarrow> Txn \<Rightarrow> Txn \<times> event list" where
  "evaluateJobs env s txn =
     forEachJob (requeueOrFail env s)
       (forEachJob (cancelIfExpired env)
          (forEachJob (expireJob env s)
             (forEachJob finishIfRunEnded
                (forEachJob reprioritise
                   (forEachJob cancelIfRequested (txn, []))))))"

text \<open>
  Modelled from the spec: step 7 of section 4.C, the decisions of the scheduling algorithm. A
  lease bumps the queued-version, unqueues the job and attaches a new run, with \<open>JobRunLeased\<close>;
  a preemption fails the latest run and the job, with \<open>JobRunPreempted\<close>, \<open>JobRunErrors\<close>
  and \<open>JobErrors\<close>; an infeasible job fails, with \<open>JobErrors\<close>. A decision about an id the transaction
  does not hold is skipped (section 7); otherwise the derived snapshot replaces the one of its id.
\<close>

definition leaseJob :: "CycleInput \<Rightarrow> Lease \<Rightarrow> Job \<Rightarrow> Job \<times> event list" where
  "leaseJob env l job =
     (WithUpdatedRun
        (job\<lparr>job_queuedVersion := job_queuedVersion job + 1, job_queued := False\<rparr>)
        (CreateRun (lease_runId l) (job_id job) (word_of_int (ci_now env)) (lease_executor l)
           (NodeIdFromExecutorAndNodeName (lease_executor l) (lease_nodeName l))
           (lease_nodeName l) (Some (lease_priority l)) False False False False False False),
      [JobRunLeased (job_id job) (lease_runId l)])"

definition preemptJob :: "Job \<Rightarrow> Job \<times> event list" where
  "preemptJob job =
     (case LatestRun job of
        None \<Rightarrow> (job, [])
      | Some run \<Rightarrow>
          (WithUpdatedRun (job\<lparr>job_failed := True\<rparr>) (run\<lparr>run_failed := True\<rparr>),
           [JobRunPreempted (job_id job) (run_id run),
            JobRunErrors (job_id job) (run_id run) ''preempted'',
            JobErrors (job_id job) ''preempted'']))"

definition failJob :: "Job \<Rightarrow> Job \<times> event list" where
  "failJob job = (job\<lparr>job_failed := True\<rparr>, [JobErrors (job_id job) ''infeasible''])"

definition decide ::
  "string \<Rightarrow> (Job \<Rightarrow> Job \<times> event list) \<Rightarrow> Txn \<times> event list \<Rightarrow> Txn \<times> event list" where
  "decide jobId f st =
     (case GetById (fst st) jobId of
        None \<Rightarrow> st
      | Some job \<Rightarrow>
          (map (\<lambda>j. if job_id j = jobId then fst (f job) else j) (fst st), snd st @ snd (f job)))"

definition applySchedulerResult ::
  "CycleInput \<Rightarrow> SchedulerResult \<Rightarrow> Txn \<times> event list \<Rightarrow> Txn \<times> event list" where
  "applySchedulerResult env res st =
     fold (\<lambda>jobId. decide jobId failJob) (FailedJobs res)
       (fold (\<lambda>jobId. decide jobId preemptJob) (PreemptedJobs res)
          (fold (\<lambda>l. decide (lease_jobId l) (leaseJob env l)) (ScheduledJobs res) st))"

definition noDecisions :: SchedulerResult where
  "noDecisions = \<lparr>ScheduledJobs = [], PreemptedJobs = [], FailedJobs = []\<rparr>"


text \<open>
  Modelled from the spec: step 8 of section 4.C advances each serial to the serial of the last
  row received, if there is one (the test of the cycle checks exactly that).
\<close>

definition lastSerial :: "int64 \<Rightarrow> int64 list \<Rightarrow> int64" where
  "lastSerial current serials = (if serials = [] then current else last serials)"

text \<open>
  Modelled from the spec: the cycle of section 4.C. Not being leader skips it. An error of the fetch, of the reconciliation or of
  the scheduling algorithm, a token that is no longer valid right before publishing, and a
  failed publish all abort the transaction: the scheduler is returned as it was. Only a
  successful publish commits the transaction and advances the serials.
\<close>

definition cycle :: "CycleInput \<Rightarrow> Scheduler \<Rightarrow> Scheduler \<times> outcome" where
  "cycle env s =
     (if \<not> ci_isLeader env then (s, NotLeader)
      else case syncState env s of
        Inl err \<Rightarrow> (s, Aborted err)
      | Inr (txn, jobRepoJobs, jobRepoRuns) \<Rightarrow>
          (case evaluateJobs env s txn of
             (txn, events) \<Rightarrow>
               (case (if ci_shouldSchedule env then ci_schedule env txn else Inr noDecisions) of
                  Inl err \<Rightarrow> (s, Aborted err)
                | Inr res \<Rightarrow>
                    (case applySchedulerResult env res (txn, events) of
                       (txn, events) \<Rightarrow>
                         if \<not> ci_tokenValidAtPublish env then (s, Aborted LeaderLost)
                         else if \<not> ci_publishOk env then (s, Aborted PublishError)
                         else (s\<lparr>jobDb := txn,
                                 jobsSerial := lastSerial (jobsSerial s) (map dbJob_Serial jobRepoJobs),
                                 runsSerial := lastSerial (runsSerial s) (map dbRun_Serial jobRepoRuns)\<rparr>,
                               Published events)))))"

section \<open>Test data\<close>

text \<open>
  The fixtures of the scheduler's test file, used below to run the definitions on concrete
  inputs. The tests draw fresh ids; here they are fixed strings. The byte strings stand for
  the protobuf encodings of the three scheduling infos, and \<open>unmarshalTest\<close> decodes exactly
  those (the empty string decodes to the empty message, as in protobuf).
\<close>

definition schedulingInfo :: JobSchedulingInfo where
  "schedulingInfo = \<lparr>Version = 1, AtMostOnce = True, QueueTtlSeconds = 0, FailFast = False,
     NodeAntiAffinities = []\<rparr>"

definition updatedSchedulingInfo :: JobSchedulingInfo where
  "updatedSchedulingInfo = schedulingInfo\<lparr>Version := 2\<rparr>"

definition schedulingInfoWithQueueTtl :: JobSchedulingInfo where
  "schedulingInfoWithQueueTtl = schedulingInfo\<lparr>QueueTtlSeconds := 2\<rparr>"

definition schedulingInfoBytes :: bytes where
  "schedulingInfoBytes = [1]"

definition updatedSchedulingInfoBytes :: bytes where
  "updatedSchedulingInfoBytes = [2]"

definition schedulingInfoWithQueueTtlBytes :: bytes where
  "schedulingInfoWithQueueTtlBytes = [3]"

definition unmarshalTest :: "bytes \<Rightarrow> JobSchedulingInfo option" where
  "unmarshalTest bs =
     (if bs = [] then Some (schedulingInfo\<lparr>Version := 0, AtMostOnce := False\<rparr>)
      else if bs = schedulingInfoBytes then Some schedulingInfo
      else if bs = updatedSchedulingInfoBytes then Some updatedSchedulingInfo
      else if bs = schedulingInfoWithQueueTtlBytes then Some schedulingInfoWithQueueTtl
      else None)"

definition queuedJob :: Job where
  "queuedJob = NewJob ''j1'' ''testJobset'' ''testQueue'' 10 schedulingInfo True 1 False False False 1"

definition queuedJobWithExpiredTtl :: Job where
  "queuedJobWithExpiredTtl =
     NewJob ''j3'' ''testJobset'' ''testQueue'' 0 schedulingInfoWithQueueTtl True 1 False False False 1"

definition leasedJob :: Job where
  "leasedJob =
     WithUpdatedRun
       ((NewJob ''j2'' ''testJobset'' ''testQueue'' 10 schedulingInfo False 2 False False False 1)
          \<lparr>job_queued := False\<rparr>)
       (CreateRun ''r1'' ''j2'' 1 ''testExecutor'' ''test-node'' ''node'' (Some 5)
          False False False False False False)"

text \<open>A job row and a run row with every column at its zero value, to be filled in.\<close>

definition jobRow :: "string \<Rightarrow> dbJob" where
  "jobRow jobId = \<lparr>dbJob_JobID = jobId, dbJob_JobSet = ''testJobSet'', dbJob_Queue = ''testQueue'',
     dbJob_Submitted = 0, dbJob_Priority = 0, dbJob_Queued = False, dbJob_QueuedVersion = 0,
     dbJob_CancelRequested = False, dbJob_CancelByJobsetRequested = False,
     dbJob_Cancelled = False, dbJob_Succeeded = False, dbJob_Failed = False,
     dbJob_SchedulingInfo = [], dbJob_SchedulingInfoVersion = 0, dbJob_Serial = 1\<rparr>"

definition runRow :: "string \<Rightarrow> string \<Rightarrow> dbRun" where
  "runRow runId jobId = \<lparr>dbRun_RunID = runId, dbRun_JobID = jobId, dbRun_Created = 0,
     dbRun_Executor = ''testExecutor'', dbRun_Node = [], dbRun_ScheduledAtPriority = None,
     dbRun_Running = False, dbRun_Succeeded = False, dbRun_Failed = False,
     dbRun_Cancelled = False, dbRun_Returned = False, dbRun_RunAttempted = False,
     dbRun_PendingTimestamp = None, dbRun_Serial = 1\<rparr>"

text \<open>
  The scheduler of the tests (an executor timeout of one hour, at most two attempts, both
  serials at -1) and a cycle in which nothing goes wrong: the process is leader, the repository
  returns the given rows, the executor has just sent a heartbeat, the submit checker accepts,
  the scheduling algorithm decides nothing and the publisher succeeds.
\<close>

definition testScheduler :: "Job list \<Rightarrow> Scheduler" where
  "testScheduler initialJobs = \<lparr>jobDb = initialJobs, jobsSerial = - 1, runsSerial = - 1,
     executorTimeout = 3600, maxAttemptedRuns = 2\<rparr>"

definition testInput :: "dbJob list \<Rightarrow> dbRun list \<Rightarrow> CycleInput" where
  "testInput jobUpdates runUpdates = \<lparr>ci_isLeader = True, ci_tokenValidAtPublish = True,
     ci_fetch = (\<lambda>jobSerial runSerial. Inr (jobUpdates, runUpdates)),
     ci_unmarshal = unmarshalTest, ci_now = 1000,
     ci_lastUpdateTimes = [''testExecutor'' \<mapsto> 1000],
     ci_submitCheck = (\<lambda>job. True), ci_shouldSchedule = True,
     ci_schedule = (\<lambda>txn. Inr noDecisions), ci_publishOk = True\<rparr>"

section \<open>Auxiliary predicates\<close>

text \<open>A run keeps the four monotone flags of an earlier snapshot of it.\<close>

definition run_flags_kept :: "JobRun \<Rightarrow> JobRun \<Rightarrow> bool" where
  "run_flags_kept run run' \<longleftrightarrow>
     (run_succeeded run \<longrightarrow> run_succeeded run') \<and> (run_failed run \<longrightarrow> run_failed run') \<and>
     (run_cancelled run \<longrightarrow> run_cancelled run') \<and> (run_runAttempted run \<longrightarrow> run_runAttempted run')"

section \<open>Properties of the reconciler\<close>

lemmas fixture_defs = schedulingInfo_def updatedSchedulingInfo_def schedulingInfoWithQueueTtl_def
  schedulingInfoBytes_def updatedSchedulingInfoBytes_def schedulingInfoWithQueueTtlBytes_def
  unmarshalTest_def queuedJob_def queuedJobWithExpiredTtl_def leasedJob_def jobRow_def runRow_def
  testScheduler_def testInput_def NewJob_def CreateRun_def WithUpdatedRun_def

text \<open>
  Each conditional of the flag reconciliation sets a flag that is not set yet, so it is the
  disjunction of the flag and the column; this gives both functions in closed form.
\<close>

lemma job_flag_steps:
  "(if b \<and> \<not> job_cancelRequested j then j\<lparr>job_cancelRequested := True\<rparr> else j)
     = j\<lparr>job_cancelRequested := job_cancelRequested j \<or> b\<rparr>"
  "(if b \<and> \<not> job_cancelByJobsetRequested j then j\<lparr>job_cancelByJobsetRequested := True\<rparr> else j)
     = j\<lparr>job_cancelByJobsetRequested := job_cancelByJobsetRequested j \<or> b\<rparr>"
  "(if b \<and> \<not> job_cancelled j then j\<lparr>job_cancelled := True\<rparr> else j)
     = j\<lparr>job_cancelled := job_cancelled j \<or> b\<rparr>"
  "(if b \<and> \<not> job_succeeded j then j\<lparr>job_succeeded := True\<rparr> else j)
     = j\<lparr>job_succeeded := job_succeeded j \<or> b\<rparr>"
  "(if b \<and> \<not> job_failed j then j\<lparr>job_failed := True\<rparr> else j)
     = j\<lparr>job_failed := job_failed j \<or> b\<rparr>"
  "(if p \<noteq> job_requestedPriority j then j\<lparr>job_requestedPriority := p\<rparr> else j)
     = j\<lparr>job_requestedPriority := p\<rparr>"
  by (cases j; auto)+

lemma reconcileJobFlags_eq:
  "reconcileJobFlags job r =
     job\<lparr>job_cancelRequested := job_cancelRequested job \<or> dbJob_CancelRequested r,
         job_cancelByJobsetRequested := job_cancelByJobsetRequested job \<or> dbJob_CancelByJobsetRequested r,
         job_cancelled := job_cancelled job \<or> dbJob_Cancelled r,
         job_succeeded := job_succeeded job \<or> dbJob_Succeeded r,
         job_failed := job_failed job \<or> dbJob_Failed r,
         job_requestedPriority := ucast (dbJob_Priority r)\<rparr>"
  unfolding reconcileJobFlags_def
  by (simp add: job_flag_steps Let_def)

lemma run_flag_steps:
  "(if b \<and> \<not> run_running x then (x\<lparr>run_running := True\<rparr>, t\<lparr>rst_Running := True\<rparr>) else (x, t))
     = (x\<lparr>run_running := run_running x \<or> b\<rparr>,
        t\<lparr>rst_Running := rst_Running t \<or> (b \<and> \<not> run_running x)\<rparr>)"
  "(if b \<and> \<not> run_succeeded x then (x\<lparr>run_succeeded := True\<rparr>, t\<lparr>rst_Succeeded := True\<rparr>) else (x, t))
     = (x\<lparr>run_succeeded := run_succeeded x \<or> b\<rparr>,
        t\<lparr>rst_Succeeded := rst_Succeeded t \<or> (b \<and> \<not> run_succeeded x)\<rparr>)"
  "(if b \<and> \<not> run_failed x then (x\<lparr>run_failed := True\<rparr>, t\<lparr>rst_Failed := True\<rparr>) else (x, t))
     = (x\<lparr>run_failed := run_failed x \<or> b\<rparr>,
        t\<lparr>rst_Failed := rst_Failed t \<or> (b \<and> \<not> run_failed x)\<rparr>)"
  "(if b \<and> \<not> run_cancelled x then (x\<lparr>run_cancelled := True\<rparr>, t\<lparr>rst_Cancelled := True\<rparr>) else (x, t))
     = (x\<lparr>run_cancelled := run_cancelled x \<or> b\<rparr>,
        t\<lparr>rst_Cancelled := rst_Cancelled t \<or> (b \<and> \<not> run_cancelled x)\<rparr>)"
  "(if b \<and> \<not> run_returned x then (x\<lparr>run_returned := True\<rparr>, t\<lparr>rst_Returned := True\<rparr>) else (x, t))
     = (x\<lparr>run_returned := run_returned x \<or> b\<rparr>,
        t\<lparr>rst_Returned := rst_Returned t \<or> (b \<and> \<not> run_returned x)\<rparr>)"
  "(if b \<and> \<not> run_runAttempted x then x\<lparr>run_runAttempted := True\<rparr> else x)
     = x\<lparr>run_runAttempted := run_runAttempted x \<or> b\<rparr>"
  by (cases x; cases t; auto)+

lemma reconcileRunFlags_eq:
  "reconcileRunFlags run r =
     (run\<lparr>run_running := run_running run \<or> dbRun_Running r,
          run_succeeded := run_succeeded run \<or> dbRun_Succeeded r,
          run_failed := run_failed run \<or> dbRun_Failed r,
          run_cancelled := run_cancelled run \<or> dbRun_Cancelled r,
          run_returned := run_returned run \<or> dbRun_Returned r,
          run_runAttempted := run_runAttempted run \<or> dbRun_RunAttempted r\<rparr>,
      rst_zero\<lparr>rst_Running := dbRun_Running r \<and> \<not> run_running run,
               rst_Succeeded := dbRun_Succeeded r \<and> \<not> run_succeeded run,
               rst_Failed := dbRun_Failed r \<and> \<not> run_failed run,
               rst_Cancelled := dbRun_Cancelled r \<and> \<not> run_cancelled run,
               rst_Returned := dbRun_Returned r \<and> \<not> run_returned run\<rparr>)"
  unfolding reconcileRunFlags_def
  by (simp add: run_flag_steps Let_def rst_zero_def del: split_paired_All)

lemma find_upsert_run:
  "find (\<lambda>r. run_id r = rid) (upsert_run run rs) =
     (if rid = run_id run then Some run else find (\<lambda>r. run_id r = rid) rs)"
  by (induction rs) auto

lemma RunById_WithUpdatedRun:
  "RunById (WithUpdatedRun job run) rid = (if rid = run_id run then Some run else RunById job rid)"
  by (simp add: RunById_def WithUpdatedRun_def find_upsert_run)

lemma RunById_id: "RunById job rid = Some run \<Longrightarrow> run_id run = rid"
  by (auto simp: RunById_def find_Some_iff)


lemma reconcileRunDifferences_existing:
  "\<exists>run'. rst_JobRun (reconcileRunDifferences (Some run) (Some r)) = Some run' \<and>
      run_id run' = run_id run \<and> run_flags_kept run run'"
  by (simp add: reconcileRunFlags_eq run_flags_kept_def)

lemma reconcileRunDifferences_new:
  "\<exists>run'. rst_JobRun (reconcileRunDifferences None (Some r)) = Some run' \<and> run_id run' = dbRun_RunID r"
  by (simp add: schedulerRunFromDatabaseRun_def CreateRun_def)

lemma reconcileRuns_fields:
  "reconcileRuns job jst rows = (job', jst') \<Longrightarrow> \<exists>rs. job' = job\<lparr>job_runs := rs\<rparr>"
proof (induction rows arbitrary: job jst)
  case Nil
  have "job = job\<lparr>job_runs := job_runs job\<rparr>" by simp
  with Nil show ?case by (metis reconcileRuns.simps(1) prod.inject)
next
  case (Cons r rows)
  let ?rst = "reconcileRunDifferences (RunById job (dbRun_RunID r)) (Some r)"
  let ?job1 = "case rst_JobRun ?rst of None \<Rightarrow> job | Some run \<Rightarrow> WithUpdatedRun job run"
  from Cons.prems have "reconcileRuns ?job1 (applyRunStateTransitions jst ?rst) rows = (job', jst')"
    by (simp add: Let_def)
  from Cons.IH[OF this] obtain rs where "job' = ?job1\<lparr>job_runs := rs\<rparr>" ..
  moreover have "?job1\<lparr>job_runs := rs\<rparr> = job\<lparr>job_runs := rs\<rparr>"
    by (simp add: WithUpdatedRun_def split: option.splits)
  ultimately have "job' = job\<lparr>job_runs := rs\<rparr>" by (rule trans)
  then show ?case ..
qed

lemma reconcileRuns_runs:
  "reconcileRuns job jst rows = (job', jst') \<Longrightarrow> RunById job rid = Some run \<Longrightarrow>
     \<exists>run'. RunById job' rid = Some run' \<and> run_flags_kept run run'"
proof (induction rows arbitrary: job jst run)
  case Nil
  then show ?case by (auto simp: run_flags_kept_def)
next
  case (Cons r rows)
  let ?rst = "reconcileRunDifferences (RunById job (dbRun_RunID r)) (Some r)"
  let ?job1 = "case rst_JobRun ?rst of None \<Rightarrow> job | Some run \<Rightarrow> WithUpdatedRun job run"
  from Cons.prems(1) have step: "reconcileRuns ?job1 (applyRunStateTransitions jst ?rst) rows = (job', jst')"
    by (simp add: Let_def)
  have "\<exists>run1. RunById ?job1 rid = Some run1 \<and> run_flags_kept run run1"
  proof (cases "RunById job (dbRun_RunID r)")
    case None
    obtain new where new: "rst_JobRun (reconcileRunDifferences None (Some r)) = Some new"
      "run_id new = dbRun_RunID r"
      using reconcileRunDifferences_new by blast
    from None Cons.prems(2) have "rid \<noteq> dbRun_RunID r" by auto
    with None new Cons.prems(2) show ?thesis
      by (auto simp: RunById_WithUpdatedRun run_flags_kept_def)
  next
    case (Some old)
    obtain upd where upd: "rst_JobRun (reconcileRunDifferences (Some old) (Some r)) = Some upd"
      "run_id upd = run_id old" "run_flags_kept old upd"
      using reconcileRunDifferences_existing by blast
    from Some have "run_id old = dbRun_RunID r" by (rule RunById_id)
    with Some upd Cons.prems(2) show ?thesis
      by (auto simp: RunById_WithUpdatedRun run_flags_kept_def)
  qed
  then obtain run1 where r1: "RunById ?job1 rid = Some run1" "run_flags_kept run run1" by blast
  from Cons.IH[OF step r1(1)] obtain run' where "RunById job' rid = Some run'" "run_flags_kept run1 run'"
    by blast
  with r1(2) show ?case by (auto simp: run_flags_kept_def)
qed


lemma reconcileQueued_flags:
  "job_succeeded (reconcileQueued j r) = job_succeeded j"
  "job_failed (reconcileQueued j r) = job_failed j"
  "job_cancelled (reconcileQueued j r) = job_cancelled j"
  "job_cancelRequested (reconcileQueued j r) = job_cancelRequested j"
  "job_cancelByJobsetRequested (reconcileQueued j r) = job_cancelByJobsetRequested j"
  "job_requestedPriority (reconcileQueued j r) = job_requestedPriority j"
  "job_schedulingInfo (reconcileQueued j r) = job_schedulingInfo j"
  "job_runs (reconcileQueued j r) = job_runs j"
  "job_id (reconcileQueued j r) = job_id j"
  by (simp_all add: reconcileQueued_def)

lemma RunById_runs_cong: "job_runs a = job_runs b \<Longrightarrow> RunById a rid = RunById b rid"
  by (simp add: RunById_def)

text \<open>
  C10. Merging a run's transitions into its job's: the run's \<open>Returned\<close> sets the job's
  \<open>Queued\<close> (the job record has no \<open>Returned\<close>), each of the other seven run flags is OR-ed
  into the job flag of the same name, the job of the record is left as it is, and no job flag
  that was true before the merge is false after it.
\<close>

theorem applyRunStateTransitions_merges:
  "jst_Queued (applyRunStateTransitions jst rst) = (jst_Queued jst \<or> rst_Returned rst) \<and>
   jst_Scheduled (applyRunStateTransitions jst rst) = (jst_Scheduled jst \<or> rst_Scheduled rst) \<and>
   jst_Pending (applyRunStateTransitions jst rst) = (jst_Pending jst \<or> rst_Pending rst) \<and>
   jst_Running (applyRunStateTransitions jst rst) = (jst_Running jst \<or> rst_Running rst) \<and>
   jst_Cancelled (applyRunStateTransitions jst rst) = (jst_Cancelled jst \<or> rst_Cancelled rst) \<and>
   jst_Preempted (applyRunStateTransitions jst rst) = (jst_Preempted jst \<or> rst_Preempted rst) \<and>
   jst_Failed (applyRunStateTransitions jst rst) = (jst_Failed jst \<or> rst_Failed rst) \<and>
   jst_Succeeded (applyRunStateTransitions jst rst) = (jst_Succeeded jst \<or> rst_Succeeded rst) \<and>
   jst_Job (applyRunStateTransitions jst rst) = jst_Job jst \<and>
   (jst_Queued jst \<longrightarrow> jst_Queued (applyRunStateTransitions jst rst)) \<and>
   (jst_Scheduled jst \<longrightarrow> jst_Scheduled (applyRunStateTransitions jst rst)) \<and>
   (jst_Pending jst \<longrightarrow> jst_Pending (applyRunStateTransitions jst rst)) \<and>
   (jst_Running jst \<longrightarrow> jst_Running (applyRunStateTransitions jst rst)) \<and>
   (jst_Cancelled jst \<longrightarrow> jst_Cancelled (applyRunStateTransitions jst rst)) \<and>
   (jst_Preempted jst \<longrightarrow> jst_Preempted (applyRunStateTransitions jst rst)) \<and>
   (jst_Failed jst \<longrightarrow> jst_Failed (applyRunStateTransitions jst rst)) \<and>
   (jst_Succeeded jst \<longrightarrow> jst_Succeeded (applyRunStateTransitions jst rst))"
  by (simp add: applyRunStateTransitions_def)

text \<open>
  A job that had failed before, merged with the transitions of a returned run: \<open>Failed\<close> stays,
  \<open>Queued\<close> is set, and nothing else is.
\<close>

theorem applyRunStateTransitions_merges_witness:
  "jst_Failed (jst_zero\<lparr>jst_Failed := True\<rparr>) \<and>
   jst_Failed (applyRunStateTransitions (jst_zero\<lparr>jst_Failed := True\<rparr>)
                 (rst_zero\<lparr>rst_Returned := True\<rparr>)) \<and>
   jst_Queued (applyRunStateTransitions (jst_zero\<lparr>jst_Failed := True\<rparr>)
                 (rst_zero\<lparr>rst_Returned := True\<rparr>)) \<and>
   \<not> jst_Running (applyRunStateTransitions (jst_zero\<lparr>jst_Failed := True\<rparr>)
                 (rst_zero\<lparr>rst_Returned := True\<rparr>))"
  using applyRunStateTransitions_merges
          [of "jst_zero\<lparr>jst_Failed := True\<rparr>" "rst_zero\<lparr>rst_Returned := True\<rparr>"]
  by (simp add: jst_zero_def rst_zero_def)

text \<open>
  C1. Reconciling an existing snapshot with any repository row (or none) and any run rows
  never clears a monotone flag. Whatever \<open>reconcileJobDifferences\<close> returns, with or without
  an error, holds a job; each of \<open>succeeded\<close>, \<open>failed\<close>, \<open>cancelled\<close> and \<open>cancelRequested\<close>
  that was set in the snapshot is set in that job; and every run of the snapshot is still a run
  of that job, with each of \<open>succeeded\<close>, \<open>failed\<close>, \<open>cancelled\<close> and \<open>runAttempted\<close> that was
  set still set.
\<close>

theorem reconcile_flags_monotone:
  assumes "reconcileJobDifferences unm (Some job) jobRepoJob jobRepoRuns = (jst, err)"
  shows "\<exists>job'. jst_Job jst = Some job' \<and>
           (job_succeeded job \<longrightarrow> job_succeeded job') \<and>
           (job_failed job \<longrightarrow> job_failed job') \<and>
           (job_cancelled job \<longrightarrow> job_cancelled job') \<and>
           (job_cancelRequested job \<longrightarrow> job_cancelRequested job') \<and>
           (\<forall>rid run. RunById job rid = Some run \<longrightarrow>
              (\<exists>run'. RunById job' rid = Some run' \<and>
                 (run_succeeded run \<longrightarrow> run_succeeded run') \<and>
                 (run_failed run \<longrightarrow> run_failed run') \<and>
                 (run_cancelled run \<longrightarrow> run_cancelled run') \<and>
                 (run_runAttempted run \<longrightarrow> run_runAttempted run')))"
proof -
  have loop: "\<exists>job'. jst_Job jst = Some job' \<and>
           (job_succeeded job \<longrightarrow> job_succeeded job') \<and>
           (job_failed job \<longrightarrow> job_failed job') \<and>
           (job_cancelled job \<longrightarrow> job_cancelled job') \<and>
           (job_cancelRequested job \<longrightarrow> job_cancelRequested job') \<and>
           (\<forall>rid run. RunById job rid = Some run \<longrightarrow>
              (\<exists>run'. RunById job' rid = Some run' \<and> run_flags_kept run run'))"
    if start: "job_runs j0 = job_runs job"
      "job_succeeded job \<longrightarrow> job_succeeded j0" "job_failed job \<longrightarrow> job_failed j0"
      "job_cancelled job \<longrightarrow> job_cancelled j0" "job_cancelRequested job \<longrightarrow> job_cancelRequested j0"
      and run: "reconcileRuns j0 jst_zero jobRepoRuns = (j1, jst1)"
      and res: "jst = jst1\<lparr>jst_Job := Some j1\<rparr>"
    for j0 j1 jst1
  proof -
    from reconcileRuns_fields[OF run] obtain rs where j1: "j1 = j0\<lparr>job_runs := rs\<rparr>" ..
    have "\<exists>run'. RunById j1 rid = Some run' \<and> run_flags_kept run run'"
      if "RunById job rid = Some run" for rid run
    proof -
      from that start(1) have "RunById j0 rid = Some run"
        by (simp add: RunById_def)
      from reconcileRuns_runs[OF run this] show ?thesis .
    qed
    with start j1 res show ?thesis by simp
  qed
  show ?thesis
  proof (cases jobRepoJob)
    case None
    obtain j1 jst1 where run: "reconcileRuns job jst_zero jobRepoRuns = (j1, jst1)"
      by (cases "reconcileRuns job jst_zero jobRepoRuns")
    with assms None have "jst = jst1\<lparr>jst_Job := Some j1\<rparr>" by simp
    from loop[OF _ _ _ _ _ run this] show ?thesis by (simp add: run_flags_kept_def)
  next
    case (Some r)
    let ?j = "reconcileJobFlags job r"
    have flags: "job_runs ?j = job_runs job" "job_succeeded job \<longrightarrow> job_succeeded ?j"
      "job_failed job \<longrightarrow> job_failed ?j" "job_cancelled job \<longrightarrow> job_cancelled ?j"
      "job_cancelRequested job \<longrightarrow> job_cancelRequested ?j"
      by (simp_all add: reconcileJobFlags_eq)
    show ?thesis
    proof (cases "Version (job_schedulingInfo ?j) < dbJob_SchedulingInfoVersion r")
      case False
      obtain j1 jst1 where run: "reconcileRuns (reconcileQueued ?j r) jst_zero jobRepoRuns = (j1, jst1)"
        by (cases "reconcileRuns (reconcileQueued ?j r) jst_zero jobRepoRuns")
      with assms Some False have "jst = jst1\<lparr>jst_Job := Some j1\<rparr>" by (simp add: Let_def)
      from loop[OF _ _ _ _ _ run this] flags show ?thesis
        by (simp add: run_flags_kept_def reconcileQueued_flags)
    next
      case True
      show ?thesis
      proof (cases "unm (dbJob_SchedulingInfo r)")
        case None
        with assms Some True have jst: "jst = jst_zero\<lparr>jst_Job := Some ?j\<rparr>" by (simp add: Let_def)
        have "RunById ?j rid = RunById job rid" for rid
          using flags(1) by (rule RunById_runs_cong)
        with jst flags show ?thesis by simp
      next
        case (Some si)
        let ?k = "reconcileQueued (?j\<lparr>job_schedulingInfo := si\<rparr>) r"
        obtain j1 jst1 where run: "reconcileRuns ?k jst_zero jobRepoRuns = (j1, jst1)"
          by (cases "reconcileRuns ?k jst_zero jobRepoRuns")
        with assms \<open>jobRepoJob = Some r\<close> True Some have "jst = jst1\<lparr>jst_Job := Some j1\<rparr>"
          by (simp add: Let_def)
        from loop[OF _ _ _ _ _ run this] flags show ?thesis
          by (simp add: run_flags_kept_def reconcileQueued_flags)
      qed
    qed
  qed
qed

text \<open>
  The leased job of the tests, cancel-requested and with its run attempted, reconciled with a
  row and a run row that have every flag false: both flags survive.
\<close>

theorem reconcile_flags_monotone_witness:
  "\<exists>job'. jst_Job (fst (reconcileJobDifferences unmarshalTest
                (Some (leasedJob\<lparr>job_cancelRequested := True,
                         job_runs := map (\<lambda>run. run\<lparr>run_runAttempted := True\<rparr>) (job_runs leasedJob)\<rparr>))
                (Some (jobRow ''j2'')) [runRow ''r1'' ''j2''])) = Some job' \<and>
      job_cancelRequested job' \<and>
      (\<exists>run'. RunById job' ''r1'' = Some run' \<and> run_runAttempted run')"
proof -
  let ?job = "leasedJob\<lparr>job_cancelRequested := True,
                 job_runs := map (\<lambda>run. run\<lparr>run_runAttempted := True\<rparr>) (job_runs leasedJob)\<rparr>"
  let ?res = "reconcileJobDifferences unmarshalTest (Some ?job) (Some (jobRow ''j2''))
                [runRow ''r1'' ''j2'']"
  have res: "?res = (fst ?res, snd ?res)" by simp
  have flag: "job_cancelRequested ?job" by simp
  have run: "RunById ?job ''r1'' =
               Some ((CreateRun ''r1'' ''j2'' 1 ''testExecutor'' ''test-node'' ''node'' (Some 5)
                        False False False False False False)\<lparr>run_runAttempted := True\<rparr>)"
    by (simp add: RunById_def fixture_defs)
  have attempted: "run_runAttempted
      ((CreateRun ''r1'' ''j2'' 1 ''testExecutor'' ''test-node'' ''node'' (Some 5)
          False False False False False False)\<lparr>run_runAttempted := True\<rparr>)"
    by simp
  from reconcile_flags_monotone[OF res] flag run attempted show ?thesis
    by blast
qed

lemma applyRunStateTransitions_Job:
  "jst_Job (applyRunStateTransitions jst rst) = jst_Job jst"
  by (simp add: applyRunStateTransitions_def)





lemma reconcileQueued_eq:
  "job_queued (reconcileQueued j r) =
     (if sint (job_queuedVersion j) < sint (dbJob_QueuedVersion r) then dbJob_Queued r
      else job_queued j)"
  "job_queuedVersion (reconcileQueued j r) =
     (if sint (job_queuedVersion j) < sint (dbJob_QueuedVersion r) then dbJob_QueuedVersion r
      else job_queuedVersion j)"
  by (simp_all add: reconcileQueued_def)

text \<open>
  C3. A reconciliation of a snapshot with a row that returns no error. The scheduling info of
  the result is the decoded scheduling info of the row when the row's scheduling-info version,
  converted to \<open>uint32\<close> as the code does, is greater than the snapshot's, and the snapshot's
  own otherwise. The queued flag and the queued-version of the result are the row's when the
  row's queued-version (a signed comparison) is greater than the snapshot's, and the snapshot's
  own otherwise.
\<close>

theorem reconcile_versioned_fields:
  assumes "reconcileJobDifferences unm (Some job) (Some row) rows = (jst, None)"
  shows "\<exists>job'. jst_Job jst = Some job' \<and>
           (if Version (job_schedulingInfo job) < dbJob_SchedulingInfoVersion row
            then unm (dbJob_SchedulingInfo row) = Some (job_schedulingInfo job')
            else job_schedulingInfo job' = job_schedulingInfo job) \<and>
           (if sint (job_queuedVersion job) < sint (dbJob_QueuedVersion row)
            then job_queued job' = dbJob_Queued row \<and>
                 job_queuedVersion job' = dbJob_QueuedVersion row
            else job_queued job' = job_queued job \<and>
                 job_queuedVersion job' = job_queuedVersion job)"
proof -
  let ?j = "reconcileJobFlags job row"
  have same: "job_schedulingInfo ?j = job_schedulingInfo job" "job_queued ?j = job_queued job"
    "job_queuedVersion ?j = job_queuedVersion job"
    by (simp_all add: reconcileJobFlags_eq)
  show ?thesis
  proof (cases "Version (job_schedulingInfo job) < dbJob_SchedulingInfoVersion row")
    case False
    obtain job' jst' where run: "reconcileRuns (reconcileQueued ?j row) jst_zero rows = (job', jst')"
      by (cases "reconcileRuns (reconcileQueued ?j row) jst_zero rows")
    from reconcileRuns_fields[OF run] obtain rs
      where job': "job' = (reconcileQueued ?j row)\<lparr>job_runs := rs\<rparr>" ..
    from assms False run same have "jst = jst'\<lparr>jst_Job := Some job'\<rparr>"
      by (simp add: Let_def)
    with False job' same show ?thesis
      by (simp add: reconcileQueued_eq reconcileQueued_flags)
  next
    case True
    show ?thesis
    proof (cases "unm (dbJob_SchedulingInfo row)")
      case None
      with assms True same show ?thesis by (simp add: Let_def)
    next
      case (Some si)
      let ?k = "reconcileQueued (?j\<lparr>job_schedulingInfo := si\<rparr>) row"
      obtain job' jst' where run: "reconcileRuns ?k jst_zero rows = (job', jst')"
        by (cases "reconcileRuns ?k jst_zero rows")
      from reconcileRuns_fields[OF run] obtain rs where job': "job' = ?k\<lparr>job_runs := rs\<rparr>" ..
      from assms True Some run same have "jst = jst'\<lparr>jst_Job := Some job'\<rparr>"
        by (simp add: Let_def)
      with True Some job' same show ?thesis
        by (simp add: reconcileQueued_eq reconcileQueued_flags)
    qed
  qed
qed

text \<open>
  The test case \<open>job requeued\<close>: the leased job (scheduling info of version 1, queued-version
  2) and a row of scheduling-info version 2 and queued-version 3 that is queued. The result
  has the updated scheduling info, is queued, and has queued-version 3.
\<close>

theorem reconcile_versioned_fields_witness:
  "\<exists>jst job'.
     reconcileJobDifferences unmarshalTest (Some leasedJob)
       (Some ((jobRow ''j2'')\<lparr>dbJob_Queued := True, dbJob_QueuedVersion := 3,
                dbJob_Priority := 10, dbJob_SchedulingInfo := updatedSchedulingInfoBytes,
                dbJob_SchedulingInfoVersion := 2\<rparr>)) [] = (jst, None) \<and>
     jst_Job jst = Some job' \<and> job_schedulingInfo job' = updatedSchedulingInfo \<and>
     job_queued job' \<and> job_queuedVersion job' = 3"
proof -
  let ?row = "(jobRow ''j2'')\<lparr>dbJob_Queued := True, dbJob_QueuedVersion := 3,
                dbJob_Priority := 10, dbJob_SchedulingInfo := updatedSchedulingInfoBytes,
                dbJob_SchedulingInfoVersion := 2\<rparr>"
  let ?res = "reconcileJobDifferences unmarshalTest (Some leasedJob) (Some ?row) []"
  have ok: "?res = (fst ?res, None)"
    by (simp add: Let_def reconcileJobFlags_eq fixture_defs)
  from reconcile_versioned_fields[OF ok] obtain job' where
    job': "jst_Job (fst ?res) = Some job'"
    and si: "if Version (job_schedulingInfo leasedJob) < dbJob_SchedulingInfoVersion ?row
            then unmarshalTest (dbJob_SchedulingInfo ?row) = Some (job_schedulingInfo job')
            else job_schedulingInfo job' = job_schedulingInfo leasedJob"
    and q: "if sint (job_queuedVersion leasedJob) < sint (dbJob_QueuedVersion ?row)
            then job_queued job' = dbJob_Queued ?row \<and>
                 job_queuedVersion job' = dbJob_QueuedVersion ?row
            else job_queued job' = job_queued leasedJob \<and>
                 job_queuedVersion job' = job_queuedVersion leasedJob"
    by blast
  from si have "job_schedulingInfo job' = updatedSchedulingInfo"
    by (simp add: fixture_defs)
  moreover from q have "job_queued job' \<and> job_queuedVersion job' = 3"
    by (simp add: fixture_defs)
  ultimately show ?thesis using ok job' by blast
qed

section \<open>Properties of a whole delta batch\<close>







text \<open>
  C4 fails on a row that is already succeeded when the jobDb first sees the job. The first
  application builds the job with \<open>NewJob\<close>, which takes neither \<open>Succeeded\<close> nor \<open>Failed\<close>
  from the row, so the job is written as a live job that has not succeeded; the second
  application finds that snapshot, takes the branch that reconciles the flags, sets
  \<open>succeeded\<close>, and the job, now terminal, leaves the jobDb. Applying the batch twice does not
  give the jobDb that applying it once gives.
\<close>

theorem applyDeltas_twice_differs:
  "applyDeltas [''j9''] unmarshalTest []
     [(jobRow ''j9'')\<lparr>dbJob_SchedulingInfo := schedulingInfoBytes,
                      dbJob_SchedulingInfoVersion := 1, dbJob_Succeeded := True\<rparr>] [] =
     Inr [NewJob ''j9'' ''testJobSet'' ''testQueue'' 0 schedulingInfo False 0 False False False 0] \<and>
   applyDeltas [''j9''] unmarshalTest
     [NewJob ''j9'' ''testJobSet'' ''testQueue'' 0 schedulingInfo False 0 False False False 0]
     [(jobRow ''j9'')\<lparr>dbJob_SchedulingInfo := schedulingInfoBytes,
                      dbJob_SchedulingInfoVersion := 1, dbJob_Succeeded := True\<rparr>] [] = Inr [] \<and>
   fst (reconcileJobDifferences unmarshalTest
     (Some (NewJob ''j9'' ''testJobSet'' ''testQueue'' 0 schedulingInfo False 0 False False False 0))
     (Some ((jobRow ''j9'')\<lparr>dbJob_SchedulingInfo := schedulingInfoBytes,
                      dbJob_SchedulingInfoVersion := 1, dbJob_Succeeded := True\<rparr>)) []) =
     jst_zero\<lparr>jst_Job :=
       Some ((NewJob ''j9'' ''testJobSet'' ''testQueue'' 0 schedulingInfo False 0 False False False 0)
               \<lparr>job_succeeded := True\<rparr>)\<rparr>"
proof -
  let ?row = "(jobRow ''j9'')\<lparr>dbJob_SchedulingInfo := schedulingInfoBytes,
                        dbJob_SchedulingInfoVersion := 1, dbJob_Succeeded := True\<rparr>"
  let ?new = "NewJob ''j9'' ''testJobSet'' ''testQueue'' 0 schedulingInfo False 0 False False False 0"
  have once: "applyDeltas [''j9''] unmarshalTest [] [?row] [] = Inr [?new]"
    by (simp add: applyDeltas_def ReconcileDifferences_def jobRepoJobsById_def jobRepoRunsById_def
          GetById_def schedulerJobFromDatabaseJob_def jobsOf_def writeJobs_def Upsert_def
          BatchDelete_def InTerminalState_def fixture_defs)
  have twice: "applyDeltas [''j9''] unmarshalTest [?new] [?row] [] = Inr []"
    by (simp add: applyDeltas_def ReconcileDifferences_def jobRepoJobsById_def jobRepoRunsById_def
          GetById_def reconcileJobFlags_eq reconcileQueued_def Let_def jobsOf_def writeJobs_def
          Upsert_def BatchDelete_def InTerminalState_def regresses_def fixture_defs)
  have snapshot: "fst (reconcileJobDifferences unmarshalTest (Some ?new) (Some ?row) []) =
      jst_zero\<lparr>jst_Job := Some (?new\<lparr>job_succeeded := True\<rparr>)\<rparr>"
    by (simp add: reconcileJobFlags_eq reconcileQueued_def Let_def fixture_defs)
  from once twice snapshot show ?thesis by (intro conjI)
qed

section \<open>Properties of the cycle\<close>



lemma cycle_Published:
  assumes "snd (cycle env s) = Published events"
  shows "ci_isLeader env \<and> ci_tokenValidAtPublish env \<and> ci_publishOk env"
proof (rule ccontr)
  assume neg: "\<not> (ci_isLeader env \<and> ci_tokenValidAtPublish env \<and> ci_publishOk env)"
  have "snd (cycle env s) \<noteq> Published events"
  proof (cases "ci_isLeader env")
    case False
    then show ?thesis by (simp add: cycle_def)
  next
    case True
    show ?thesis
    proof (cases "syncState env s")
      case (Inl err)
      with True show ?thesis by (simp add: cycle_def)
    next
      case (Inr synced)
      obtain txn jobRepoJobs jobRepoRuns where synced: "synced = (txn, jobRepoJobs, jobRepoRuns)"
        by (cases synced) auto
      obtain txn' evs where ev: "evaluateJobs env s txn = (txn', evs)"
        by (cases "evaluateJobs env s txn")
      show ?thesis
      proof (cases "if ci_shouldSchedule env then ci_schedule env txn' else Inr noDecisions")
        case (Inl err)
        with True Inr synced ev show ?thesis by (simp add: cycle_def)
      next
        case res: (Inr res)
        obtain txn'' evs' where ap: "applySchedulerResult env res (txn', evs) = (txn'', evs')"
          by (cases "applySchedulerResult env res (txn', evs)")
        from neg True have "\<not> ci_tokenValidAtPublish env \<or> \<not> ci_publishOk env" by simp
        with True Inr synced ev res ap show ?thesis by (auto simp: cycle_def)
      qed
    qed
  qed
  with assms show False by simp
qed

lemma cycle_fenced:
  assumes "\<not> ci_isLeader env \<or> \<not> ci_tokenValidAtPublish env"
  shows "fst (cycle env s) = s \<and> published (snd (cycle env s)) = []"
proof (cases "ci_isLeader env")
  case False
  then show ?thesis by (simp add: cycle_def published_def)
next
  case True
  with assms have invalid: "\<not> ci_tokenValidAtPublish env" by simp
  show ?thesis
  proof (cases "syncState env s")
    case (Inl err)
    with True show ?thesis by (simp add: cycle_def published_def)
  next
    case (Inr synced)
    obtain txn jobRepoJobs jobRepoRuns where synced: "synced = (txn, jobRepoJobs, jobRepoRuns)"
      by (cases synced) auto
    obtain txn' evs where ev: "evaluateJobs env s txn = (txn', evs)"
      by (cases "evaluateJobs env s txn")
    show ?thesis
    proof (cases "if ci_shouldSchedule env then ci_schedule env txn' else Inr noDecisions")
      case (Inl err)
      with True Inr synced ev show ?thesis by (simp add: cycle_def published_def)
    next
      case res: (Inr res)
      obtain txn'' evs' where ap: "applySchedulerResult env res (txn', evs) = (txn'', evs')"
        by (cases "applySchedulerResult env res (txn', evs)")
      with True invalid Inr synced ev res show ?thesis by (simp add: cycle_def published_def)
    qed
  qed
qed

lemma cycle_publishes:
  assumes "ci_isLeader env" "ci_tokenValidAtPublish env" "ci_publishOk env"
    and "syncState env s = Inr (txn, jobRepoJobs, jobRepoRuns)"
    and "ci_shouldSchedule env \<longrightarrow> (\<forall>txn. \<exists>res. ci_schedule env txn = Inr res)"
  shows "\<exists>res s'.
           (if ci_shouldSchedule env then ci_schedule env (fst (evaluateJobs env s txn))
            else Inr noDecisions) = Inr res \<and>
           jobDb s' = fst (applySchedulerResult env res (evaluateJobs env s txn)) \<and>
           cycle env s = (s', Published (snd (applySchedulerResult env res (evaluateJobs env s txn))))"
proof -
  obtain txn' events where ev: "evaluateJobs env s txn = (txn', events)"
    by (cases "evaluateJobs env s txn")
  from assms(5) obtain res where
    res: "(if ci_shouldSchedule env then ci_schedule env txn' else Inr noDecisions) = Inr res"
    by (cases "ci_shouldSchedule env") auto
  obtain txn'' events' where ap: "applySchedulerResult env res (txn', events) = (txn'', events')"
    by (cases "applySchedulerResult env res (txn', events)")
  let ?s' = "s\<lparr>jobDb := txn'',
               jobsSerial := lastSerial (jobsSerial s) (map dbJob_Serial jobRepoJobs),
               runsSerial := lastSerial (runsSerial s) (map dbRun_Serial jobRepoRuns)\<rparr>"
  from assms(1-4) ev res ap have "cycle env s = (?s', Published events')"
    by (simp add: cycle_def)
  moreover have "jobDb ?s' = txn''" by simp
  ultimately show ?thesis using ev res ap by auto
qed

text \<open>
  C8. A cycle that is not leader, or whose token is no longer valid right before publishing,
  publishes nothing and leaves the scheduler as it was. Any later cycle then runs exactly as
  it would have run without it; in particular a later cycle that holds a valid token, and in
  which the synchronisation, the scheduling algorithm and the publisher succeed, publishes.
  And a cycle that publishes held a leader token that was valid right before publishing.
\<close>

theorem invalid_token_fences_cycle:
  "(\<not> ci_isLeader env \<or> \<not> ci_tokenValidAtPublish env \<longrightarrow>
      published (snd (cycle env s)) = [] \<and> fst (cycle env s) = s \<and>
      cycle later (fst (cycle env s)) = cycle later s \<and>
      (ci_isLeader later \<and> ci_tokenValidAtPublish later \<and> ci_publishOk later \<and>
       (\<exists>synced. syncState later s = Inr synced) \<and>
       (ci_shouldSchedule later \<longrightarrow> (\<forall>txn. \<exists>res. ci_schedule later txn = Inr res)) \<longrightarrow>
         (\<exists>s' events'. cycle later (fst (cycle env s)) = (s', Published events')))) \<and>
   (snd (cycle env s) = Published events \<longrightarrow> ci_isLeader env \<and> ci_tokenValidAtPublish env)"
proof (intro conjI impI)
  assume h: "\<not> ci_isLeader env \<or> \<not> ci_tokenValidAtPublish env"
  from cycle_fenced[OF h] show "published (snd (cycle env s)) = []" by simp
  from cycle_fenced[OF h] show same: "fst (cycle env s) = s" by simp
  then show "cycle later (fst (cycle env s)) = cycle later s" by simp
  assume later: "ci_isLeader later \<and> ci_tokenValidAtPublish later \<and> ci_publishOk later \<and>
       (\<exists>synced. syncState later s = Inr synced) \<and>
       (ci_shouldSchedule later \<longrightarrow> (\<forall>txn. \<exists>res. ci_schedule later txn = Inr res))"
  then obtain txn jobRepoJobs jobRepoRuns
    where sync: "syncState later s = Inr (txn, jobRepoJobs, jobRepoRuns)"
    by (metis prod_cases3)
  from later have "ci_isLeader later" "ci_tokenValidAtPublish later" "ci_publishOk later"
    "ci_shouldSchedule later \<longrightarrow> (\<forall>txn. \<exists>res. ci_schedule later txn = Inr res)"
    by simp_all
  from cycle_publishes[OF this(1-3) sync this(4)] same
  show "\<exists>s' events'. cycle later (fst (cycle env s)) = (s', Published events')"
    by auto
next
  assume "snd (cycle env s) = Published events"
  from cycle_Published[OF this] show "ci_isLeader env" "ci_tokenValidAtPublish env" by simp_all
qed

text \<open>Running a cycle on concrete inputs, stage by stage.\<close>

lemmas sync_defs = syncState_def applyDeltas_def ReconcileDifferences_def
  jobRepoJobsById_def jobRepoRunsById_def GetById_def jobsOf_def writeJobs_def Upsert_def
  BatchDelete_def InTerminalState_def RunById_def reconcileJobFlags_eq reconcileRunFlags_eq
  reconcileQueued_def schedulerJobFromDatabaseJob_def schedulerRunFromDatabaseRun_def
  applyRunStateTransitions_def regresses_def jst_zero_def rst_zero_def Let_def
  NodeIdFromExecutorAndNodeName_def

lemmas evaluate_defs = evaluateJobs_def forEachJob_def cancelIfRequested_def reprioritise_def
  finishIfRunEnded_def expireJob_def stale_def cancelIfExpired_def queueTtlExpired_def
  requeueOrFail_def withNodeAntiAffinity_def LatestRun_def leased_def InTerminalState_def
  run_ended_def NumAttempts_def Let_def

lemmas decide_defs = applySchedulerResult_def decide_def leaseJob_def preemptJob_def failJob_def
  noDecisions_def GetById_def LatestRun_def NodeIdFromExecutorAndNodeName_def

lemma cycle_run:
  assumes "ci_isLeader env" "ci_tokenValidAtPublish env" "ci_publishOk env"
    and "syncState env s = Inr (txn, jobRepoJobs, jobRepoRuns)"
    and "evaluateJobs env s txn = (txn', events)"
    and "(if ci_shouldSchedule env then ci_schedule env txn' else Inr noDecisions) = Inr res"
    and "applySchedulerResult env res (txn', events) = (txn'', events')"
  shows "cycle env s =
           (s\<lparr>jobDb := txn'',
              jobsSerial := lastSerial (jobsSerial s) (map dbJob_Serial jobRepoJobs),
              runsSerial := lastSerial (runsSerial s) (map dbRun_Serial jobRepoRuns)\<rparr>,
            Published events')"
  using assms by (simp add: cycle_def)

text \<open>
  The test \<open>TestRun\<close> in two cycles: the queued job is in the jobDb and the scheduling
  algorithm leases it. With the token invalidated the cycle publishes nothing and changes
  nothing; the next cycle, with a valid token, publishes the lease.
\<close>

theorem invalid_token_fences_cycle_witness:
  "published (snd (cycle
      ((testInput [] [])\<lparr>ci_tokenValidAtPublish := False,
         ci_schedule := (\<lambda>txn. Inr \<lparr>ScheduledJobs =
            [\<lparr>lease_jobId = ''j1'', lease_runId = ''r2'', lease_executor = ''test-executor'',
              lease_nodeName = ''test-node'', lease_priority = 10\<rparr>],
            PreemptedJobs = [], FailedJobs = []\<rparr>)\<rparr>)
      (testScheduler [queuedJob]))) = [] \<and>
   fst (cycle
      ((testInput [] [])\<lparr>ci_tokenValidAtPublish := False,
         ci_schedule := (\<lambda>txn. Inr \<lparr>ScheduledJobs =
            [\<lparr>lease_jobId = ''j1'', lease_runId = ''r2'', lease_executor = ''test-executor'',
              lease_nodeName = ''test-node'', lease_priority = 10\<rparr>],
            PreemptedJobs = [], FailedJobs = []\<rparr>)\<rparr>)
      (testScheduler [queuedJob])) = testScheduler [queuedJob] \<and>
   snd (cycle
      ((testInput [] [])\<lparr>
         ci_schedule := (\<lambda>txn. Inr \<lparr>ScheduledJobs =
            [\<lparr>lease_jobId = ''j1'', lease_runId = ''r2'', lease_executor = ''test-executor'',
              lease_nodeName = ''test-node'', lease_priority = 10\<rparr>],
            PreemptedJobs = [], FailedJobs = []\<rparr>)\<rparr>)
      (fst (cycle
        ((testInput [] [])\<lparr>ci_tokenValidAtPublish := False,
           ci_schedule := (\<lambda>txn. Inr \<lparr>ScheduledJobs =
              [\<lparr>lease_jobId = ''j1'', lease_runId = ''r2'', lease_executor = ''test-executor'',
                lease_nodeName = ''test-node'', lease_priority = 10\<rparr>],
              PreemptedJobs = [], FailedJobs = []\<rparr>)\<rparr>)
        (testScheduler [queuedJob])))) = Published [JobRunLeased ''j1'' ''r2'']"
proof -
  let ?res = "\<lparr>ScheduledJobs =
            [\<lparr>lease_jobId = ''j1'', lease_runId = ''r2'', lease_executor = ''test-executor'',
              lease_nodeName = ''test-node'', lease_priority = 10\<rparr>],
            PreemptedJobs = [], FailedJobs = []\<rparr>"
  let ?algo = "\<lambda>txn :: Txn. (Inr ?res :: error + SchedulerResult)"
  let ?invalid = "(testInput [] [])\<lparr>ci_tokenValidAtPublish := False, ci_schedule := ?algo\<rparr>"
  let ?valid = "(testInput [] [])\<lparr>ci_schedule := ?algo\<rparr>"
  let ?s = "testScheduler [queuedJob]"
  have h: "\<not> ci_isLeader ?invalid \<or> \<not> ci_tokenValidAtPublish ?invalid"
    by (simp add: testInput_def)
  note fence = invalid_token_fences_cycle[of ?invalid ?s ?valid, THEN conjunct1, rule_format, OF h]
  have input: "ci_isLeader ?valid" "ci_tokenValidAtPublish ?valid" "ci_publishOk ?valid"
    by (simp_all add: testInput_def)
  have sync: "syncState ?valid ?s = Inr ([queuedJob], [], [])"
    by (simp add: sync_defs testInput_def testScheduler_def)
  have ev: "evaluateJobs ?valid ?s [queuedJob] = ([queuedJob], [])"
    by (simp add: evaluate_defs fixture_defs)
  have algo: "(if ci_shouldSchedule ?valid then ci_schedule ?valid [queuedJob] else Inr noDecisions)
                = Inr ?res"
    by (simp add: testInput_def)
  obtain leasedNow where ap: "applySchedulerResult ?valid ?res ([queuedJob], []) =
      ([leasedNow], [JobRunLeased ''j1'' ''r2''])"
    by (simp add: decide_defs fixture_defs)
  have again: "snd (cycle ?valid ?s) = Published [JobRunLeased ''j1'' ''r2'']"
    using cycle_run[OF input sync ev algo ap] by simp
  from fence have "published (snd (cycle ?invalid ?s)) = []" by (rule conjunct1)
  moreover from fence have "fst (cycle ?invalid ?s) = ?s" by (elim conjE)
  moreover from fence have "cycle ?valid (fst (cycle ?invalid ?s)) = cycle ?valid ?s"
    by (elim conjE)
  with again have "snd (cycle ?valid (fst (cycle ?invalid ?s))) = Published [JobRunLeased ''j1'' ''r2'']"
    by simp
  ultimately show ?thesis by (intro conjI)
qed




















lemma reprioritise_fst:
  "fst (reprioritise job) = job\<lparr>job_priority := job_requestedPriority job\<rparr> \<or>
   fst (reprioritise job) = job"
  by (simp add: reprioritise_def)









end
